theory Spec2Isabelle
  imports Main "HOL-Library.Word"
begin

section \<open>The Docker wrapper of the integration-test framework\<close>

text \<open>
  A shallow embedding of \<^verbatim>\<open>tools/integration-tests/tester/framework/docker.go\<close>.
  The Docker client is the only collaborator: every method of \<^verbatim>\<open>DockerContainer\<close>
  builds one request, hands it to the client and returns what the client answers.  The
  model keeps the request as a value, so that what is sent to the engine can be read off.
\<close>

subsection \<open>Formatting\<close>

text \<open>
  \<^verbatim>\<open>fmt.Sprintf\<close> is used with the verbs \<^verbatim>\<open>%s\<close> (the string itself) and
  \<^verbatim>\<open>%d\<close> (the decimal digits of an integer, with a leading minus sign when negative).
\<close>

definition digit_char :: "nat \<Rightarrow> char" where
  "digit_char n = ''0123456789'' ! n"

fun nat_digits :: "nat \<Rightarrow> string" where
  "nat_digits n =
     (if n < 10 then [digit_char n]
      else nat_digits (n div 10) @ [digit_char (n mod 10)])"

declare nat_digits.simps [simp del]

definition fmt_d :: "int \<Rightarrow> string" where
  "fmt_d i = (if i < 0 then CHR ''-'' # nat_digits (nat (- i)) else nat_digits (nat i))"

text \<open>\<^verbatim>\<open>strings.Join(elems, sep)\<close>.\<close>

fun strings_Join :: "string list \<Rightarrow> string \<Rightarrow> string" where
  "strings_Join [] sep = []"
| "strings_Join [x] sep = x"
| "strings_Join (x # y # ys) sep = x @ sep @ strings_Join (y # ys) sep"

text \<open>Whether an argument begins with a given flag name, as a command-line parser reads it.\<close>

fun starts_with :: "string \<Rightarrow> string \<Rightarrow> bool" where
  "starts_with [] s = True"
| "starts_with (p # ps) [] = False"
| "starts_with (p # ps) (c # cs) = (p = c \<and> starts_with ps cs)"

subsection \<open>Errors, panics and the types of the Docker API\<close>

text \<open>
  A Go \<^verbatim>\<open>error\<close> is either one the client returned (carried through unchanged) or one
  built here by \<^verbatim>\<open>fmt.Errorf\<close> with its message.  A run-time panic is a separate
  outcome: the function does not return at all.
\<close>

datatype error = EngineError string | Errorf string

datatype panic = IndexOutOfRange | NilDereference

text \<open>\<^verbatim>\<open>time.Duration\<close> is an \<^verbatim>\<open>int64\<close> count of nanoseconds.\<close>

type_synonym Duration = "64 word"

definition Nanosecond :: Duration where "Nanosecond = 1"
definition Microsecond :: Duration where "Microsecond = 1000 * Nanosecond"
definition Millisecond :: Duration where "Millisecond = 1000 * Microsecond"
definition Second :: Duration where "Second = 1000 * Millisecond"
definition Minute :: Duration where "Minute = 60 * Second"

text \<open>
  The fields of \<^verbatim>\<open>container.Config\<close>, \<^verbatim>\<open>container.HostConfig\<close>,
  \<^verbatim>\<open>types.Container\<close>, \<^verbatim>\<open>types.ContainerJSON\<close> and
  \<^verbatim>\<open>types.ContainerLogsOptions\<close> that this file reads or writes.  A field the code
  leaves out of a literal has Go's zero value (an empty slice, an empty port set).  Fields
  behind a pointer are options: \<open>None\<close> is \<^verbatim>\<open>nil\<close>.
\<close>

record Config =
  Image :: string
  ExposedPorts :: "string set"
  Env :: "string list"
  Cmd :: "string list"

record HostConfig =
  Binds :: "string list"

record Container =
  ID :: string
  Names :: "string list"

record ContainerState =
  ExitCode :: int

record EndpointSettings =
  IPAddress :: string

text \<open>
  \<^verbatim>\<open>Networks\<close> is a Go map from network name to \<^verbatim>\<open>*EndpointSettings\<close>.  It is
  kept as the list of its entries in the order one \<^verbatim>\<open>range\<close> loop visits them; the
  keys of a Go map are distinct, and the order is not specified.
\<close>

record NetworkSettings =
  Networks :: "(string \<times> EndpointSettings option) list"

record ContainerJSON =
  State :: "ContainerState option"
  NetworkSettings :: "NetworkSettings option"

record ContainerLogsOptions =
  ShowStdout :: bool
  ShowStderr :: bool
  Since :: string
  Timestamps :: bool
  Follow :: bool
  Tail :: string
  Details :: bool

text \<open>An \<^verbatim>\<open>io.ReadCloser\<close> handed out by the client is opaque here.\<close>

datatype ReadCloser = ReadCloser nat

text \<open>
  The requests this file sends through \<^verbatim>\<open>*client.Client\<close>, with the arguments in
  the order of the Go calls (the context and the arguments that are always \<^verbatim>\<open>nil\<close>
  are left out; the options structs of start and remove are reduced to the field set).
\<close>

datatype engine_call =
    ContainerList
  | ContainerCreate Config "HostConfig option" string
  | NetworkConnect string string
  | NetworkDisconnect string string bool
  | ContainerStart string
  | ContainerRemove string bool
  | ContainerStop string Duration
  | ContainerInspect string
  | ContainerLogs string ContainerLogsOptions

text \<open>
  The client and the engine behind it are a parameter: what they answer to each request,
  by the result type of the Go method.
\<close>

record client =
  reply_error :: "engine_call \<Rightarrow> error option"
  reply_list :: "engine_call \<Rightarrow> error + Container list"
  reply_create :: "engine_call \<Rightarrow> error + string"
  reply_inspect :: "engine_call \<Rightarrow> error + ContainerJSON"
  reply_logs :: "engine_call \<Rightarrow> error + ReadCloser"

text \<open>The wrapper object: \<^verbatim>\<open>id\<close> is empty until a creation succeeds.\<close>

record DockerContainer =
  client :: client
  id' :: string

definition NewDockerContainer :: "client \<Rightarrow> DockerContainer" where
  "NewDockerContainer c = \<lparr>client = c, id' = []\<rparr>"

subsection \<open>Constants of the package declared outside this file\<close>

text \<open>
  \<^verbatim>\<open>docker.go\<close> reads package-level constants and the struct \<^verbatim>\<open>NodeConfig\<close>
  that are declared in other files of the package.  The constants are parameters of the
  model; the fields of \<^verbatim>\<open>NodeConfig\<close> are typed by the way this file uses them
  (\<^verbatim>\<open>%s\<close> for strings, a condition for the boolean).
\<close>

record params =
  disabledPluginsEntryNode :: string
  coordinatorSeed :: string
  coordinatorAddress :: string
  coordinatorIntervalSeconds :: int
  coordinatorSecurityLevel :: int
  coordinatorMerkleTreeDepth :: int
  ParaPoWDifficulty :: int
  APIPort :: int

record NodeConfig =
  Name :: string
  Coordinator :: bool
  DisabledPlugins :: string
  SnapshotFilePath :: string
  AutopeeringSeed :: string
  EntryNodePublicKey :: string
  EntryNodeHost :: string

subsection \<open>Creating containers\<close>

text \<open>
  \<^verbatim>\<open>CreateContainer\<close> takes the host configuration as a variadic argument and uses
  its first element when there is one.  It sends the creation request and, when the
  client answers without an error, stores the returned identifier in the wrapper.  Every
  method returns the request it sent, the wrapper as the call leaves it, and its Go result.
\<close>

definition CreateContainer ::
  "DockerContainer \<Rightarrow> string \<Rightarrow> Config \<Rightarrow> HostConfig list
     \<Rightarrow> engine_call \<times> DockerContainer \<times> error option" where
  "CreateContainer d name containerConfig hostConfigs =
     (let hostConfig = (if length hostConfigs > 0 then Some (hostConfigs ! 0) else None);
          call = ContainerCreate containerConfig hostConfig name
      in case reply_create (client d) call of
           Inl err \<Rightarrow> (call, d, Some err)
         | Inr respID \<Rightarrow> (call, d\<lparr>id' := respID\<rparr>, None))"

text \<open>The configuration literal of \<^verbatim>\<open>CreateHornetEntryNode\<close>.\<close>

definition CreateHornetEntryNode_containerConfig :: "params \<Rightarrow> string \<Rightarrow> Config" where
  "CreateHornetEntryNode_containerConfig p seed =
     \<lparr>Image = ''hornet:dev'',
      ExposedPorts = {},
      Env = [],
      Cmd =
        [''--logger.level=debug'',
         ''--node.disablePlugins='' @ disabledPluginsEntryNode p,
         ''--autopeering.entryNodes='',
         ''--autopeering.seed=base58:'' @ seed]\<rparr>"

definition CreateHornetEntryNode ::
  "params \<Rightarrow> DockerContainer \<Rightarrow> string \<Rightarrow> string
     \<Rightarrow> engine_call \<times> DockerContainer \<times> error option" where
  "CreateHornetEntryNode p d name seed =
     CreateContainer d name (CreateHornetEntryNode_containerConfig p seed) []"

text \<open>
  The configuration literal of \<^verbatim>\<open>CreateHornetPeer\<close>.  The only place that reads
  \<^verbatim>\<open>config.Coordinator\<close> is the closure that builds the value of
  \<^verbatim>\<open>--node.enablePlugins\<close>.
\<close>

definition enablePlugins :: "NodeConfig \<Rightarrow> string" where
  "enablePlugins config =
     (let plugins = [];
          plugins = (if Coordinator config then plugins @ [''Coordinator''] else plugins)
      in strings_Join plugins '','')"

definition CreateHornetPeer_containerConfig :: "params \<Rightarrow> NodeConfig \<Rightarrow> Config" where
  "CreateHornetPeer_containerConfig p config =
     \<lparr>Image = ''hornet:dev'',
      ExposedPorts = {fmt_d (APIPort p) @ ''/tcp''},
      Env = [''COO_SEED='' @ coordinatorSeed p],
      Cmd =
        [''--logger.level=debug'',
         ''--node.disablePlugins='' @ DisabledPlugins config,
         ''--node.enablePlugins='' @ enablePlugins config,
         ''--coordinator.mwm='' @ fmt_d (ParaPoWDifficulty p),
         ''--coordinator.address='' @ coordinatorAddress p,
         ''--coordinator.intervalSeconds='' @ fmt_d (coordinatorIntervalSeconds p),
         ''--coordinator.securityLevel='' @ fmt_d (coordinatorSecurityLevel p),
         ''--coordinator.merkleTreeDepth='' @ fmt_d (coordinatorMerkleTreeDepth p),
         ''--snapshots.loadType=global'',
         ''--snapshots.global.path=snapshot.csv'',
         ''--snapshots.global.index=0'',
         ''--snapshots.local.path='' @ SnapshotFilePath config,
         ''--httpAPI.bindAddress='' @ fmt_d (APIPort p),
         ''--autopeering.seed=base58:'' @ AutopeeringSeed config,
         ''--autopeering.entryNodes='' @ EntryNodePublicKey config @ ''@''
            @ EntryNodeHost config @ '':14626'']\<rparr>"

definition CreateHornetPeer ::
  "params \<Rightarrow> DockerContainer \<Rightarrow> NodeConfig
     \<Rightarrow> engine_call \<times> DockerContainer \<times> error option" where
  "CreateHornetPeer p d config =
     CreateContainer d (Name config) (CreateHornetPeer_containerConfig p config)
       [\<lparr>Binds = [''hornet-testing-assets:/assets:rw'']\<rparr>]"

text \<open>
  \<^verbatim>\<open>CreatePumba\<close>: the loop appends one \<^verbatim>\<open>--target=\<close> argument per address to
  the command built so far; the fault profile and the container name are appended after it.
\<close>

fun append_targets :: "string list \<Rightarrow> string list \<Rightarrow> string list" where
  "append_targets cmd [] = cmd"
| "append_targets cmd (ip # targetIPs) =
     (let targetFlag = ''--target='' @ ip
      in append_targets (cmd @ [targetFlag]) targetIPs)"

definition CreatePumba_cmd :: "string \<Rightarrow> string list \<Rightarrow> string list" where
  "CreatePumba_cmd containerName targetIPs =
     (let cmd = [''--log-level=debug'', ''netem'', ''--duration=100m''];
          cmd = append_targets cmd targetIPs;
          slice = [''--tc-image=gaiadocker/iproute2'', ''loss'', ''--percent=100'', containerName]
      in cmd @ slice)"

definition CreatePumba ::
  "DockerContainer \<Rightarrow> string \<Rightarrow> string \<Rightarrow> string list
     \<Rightarrow> engine_call \<times> DockerContainer \<times> error option" where
  "CreatePumba d name containerName targetIPs =
     (let hostConfig = \<lparr>Binds = [''/var/run/docker.sock:/var/run/docker.sock:ro'']\<rparr>;
          containerConfig =
            \<lparr>Image = ''gaiaadm/pumba:0.7.2'', ExposedPorts = {}, Env = [],
             Cmd = CreatePumba_cmd containerName targetIPs\<rparr>
      in CreateContainer d name containerConfig [hostConfig])"

subsection \<open>Resolving an existing container\<close>

text \<open>
  \<^verbatim>\<open>NewDockerContainerFromExisting\<close> lists the containers and walks the list.  The
  comparison reads \<^verbatim>\<open>cont.Names[0]\<close>, which panics on an empty slice.
\<close>

fun find_by_name :: "client \<Rightarrow> string \<Rightarrow> Container list \<Rightarrow> panic + (error + DockerContainer)" where
  "find_by_name c name [] =
     Inr (Inl (Errorf (''could not find container with name '' @ [CHR 0x27] @ name @ [CHR 0x27])))"
| "find_by_name c name (cont # containers) =
     (case Names cont of
        [] \<Rightarrow> Inl IndexOutOfRange
      | n0 # _ \<Rightarrow>
          if n0 = name then Inr (Inr \<lparr>client = c, id' = ID cont\<rparr>)
          else find_by_name c name containers)"

definition NewDockerContainerFromExisting ::
  "client \<Rightarrow> string \<Rightarrow> panic + (error + DockerContainer)" where
  "NewDockerContainerFromExisting c name =
     (case reply_list c ContainerList of
        Inl err \<Rightarrow> Inr (Inl err)
      | Inr containers \<Rightarrow> find_by_name c name containers)"

subsection \<open>Operations on a container\<close>

text \<open>
  The methods that only forward the client's error: each sends one request carrying
  \<^verbatim>\<open>d.id\<close> and returns the answer.  None of them assigns a field of the wrapper.
\<close>

definition ConnectToNetwork ::
  "DockerContainer \<Rightarrow> string \<Rightarrow> engine_call \<times> DockerContainer \<times> error option" where
  "ConnectToNetwork d networkID =
     (let call = NetworkConnect networkID (id' d)
      in (call, d, reply_error (client d) call))"

definition DisconnectFromNetwork ::
  "DockerContainer \<Rightarrow> string \<Rightarrow> engine_call \<times> DockerContainer \<times> error option" where
  "DisconnectFromNetwork d networkID =
     (let call = NetworkDisconnect networkID (id' d) True
      in (call, d, reply_error (client d) call))"

definition Start :: "DockerContainer \<Rightarrow> engine_call \<times> DockerContainer \<times> error option" where
  "Start d = (let call = ContainerStart (id' d) in (call, d, reply_error (client d) call))"

definition Remove :: "DockerContainer \<Rightarrow> engine_call \<times> DockerContainer \<times> error option" where
  "Remove d = (let call = ContainerRemove (id' d) True in (call, d, reply_error (client d) call))"

text \<open>
  \<^verbatim>\<open>Stop\<close> takes the timeout as a variadic argument: \<open>None\<close> is the \<^verbatim>\<open>nil\<close> slice
  of a call without arguments, \<open>Some ts\<close> a slice that is not \<^verbatim>\<open>nil\<close> (the arguments
  of the call, or a slice spread with \<^verbatim>\<open>...\<close>, which may be empty).  The test is
  \<^verbatim>\<open>optionalTimeout != nil\<close>, and \<^verbatim>\<open>optionalTimeout[0]\<close> panics on an empty slice,
  before any request is sent.
\<close>

definition Stop ::
  "DockerContainer \<Rightarrow> Duration list option
     \<Rightarrow> panic + (engine_call \<times> DockerContainer \<times> error option)" where
  "Stop d optionalTimeout =
     (let duration = 3 * Minute
      in case optionalTimeout of
           None \<Rightarrow>
             (let call = ContainerStop (id' d) duration
              in Inr (call, d, reply_error (client d) call))
         | Some [] \<Rightarrow> Inl IndexOutOfRange
         | Some (t0 # _) \<Rightarrow>
             (let duration = t0;
                  call = ContainerStop (id' d) duration
              in Inr (call, d, reply_error (client d) call)))"

text \<open>
  \<^verbatim>\<open>ExitStatus\<close> and \<^verbatim>\<open>IP\<close> inspect the container.  An inspection error is
  returned as it is (with \<^verbatim>\<open>-1\<close>, respectively the empty string, as the value, which
  the sum leaves out).  Reading through a \<^verbatim>\<open>nil\<close> pointer of the answer panics.
\<close>

definition ExitStatus ::
  "DockerContainer \<Rightarrow> engine_call \<times> DockerContainer \<times> (panic + (error + int))" where
  "ExitStatus d =
     (let call = ContainerInspect (id' d)
      in case reply_inspect (client d) call of
           Inl err \<Rightarrow> (call, d, Inr (Inl err))
         | Inr resp \<Rightarrow>
             (case State resp of
                None \<Rightarrow> (call, d, Inl NilDereference)
              | Some st \<Rightarrow> (call, d, Inr (Inr (ExitCode st)))))"

fun IP_range :: "string \<Rightarrow> (string \<times> EndpointSettings option) list \<Rightarrow> panic + (error + string)" where
  "IP_range network [] =
     Inr (Inl (Errorf (''IP address in '' @ network @ '' could not be determined'')))"
| "IP_range network ((name, v) # entries) =
     (if name = network then
        (case v of None \<Rightarrow> Inl NilDereference | Some ep \<Rightarrow> Inr (Inr (IPAddress ep)))
      else IP_range network entries)"

definition IP ::
  "DockerContainer \<Rightarrow> string \<Rightarrow> engine_call \<times> DockerContainer \<times> (panic + (error + string))" where
  "IP d network =
     (let call = ContainerInspect (id' d)
      in case reply_inspect (client d) call of
           Inl err \<Rightarrow> (call, d, Inr (Inl err))
         | Inr resp \<Rightarrow>
             (case NetworkSettings resp of
                None \<Rightarrow> (call, d, Inl NilDereference)
              | Some ns \<Rightarrow> (call, d, IP_range network (Networks ns))))"

text \<open>The options literal of \<^verbatim>\<open>Logs\<close>, and the method.\<close>

definition Logs_options :: ContainerLogsOptions where
  "Logs_options =
     \<lparr>ShowStdout = True,
      ShowStderr = True,
      Since = [],
      Timestamps = False,
      Follow = False,
      Tail = [],
      Details = False\<rparr>"

definition Logs ::
  "DockerContainer \<Rightarrow> engine_call \<times> DockerContainer \<times> (error + ReadCloser)" where
  "Logs d =
     (let options = Logs_options;
          call = ContainerLogs (id' d) options
      in (call, d, reply_logs (client d) call))"

subsection \<open>Sequences of operations on one wrapper\<close>

text \<open>
  The operations a caller can apply to a wrapper after it was created, and a run of them:
  each step takes the wrapper the step before left.  A panic ends the run.
\<close>

datatype operation =
    OpStart
  | OpStop "Duration list option"
  | OpRemove
  | OpExitStatus
  | OpIP string
  | OpLogs
  | OpConnectToNetwork string
  | OpDisconnectFromNetwork string

fun apply_operation ::
  "DockerContainer \<Rightarrow> operation \<Rightarrow> engine_call list \<times> DockerContainer \<times> panic option" where
  "apply_operation d OpStart = (case Start d of (call, d', _) \<Rightarrow> ([call], d', None))"
| "apply_operation d (OpStop optionalTimeout) =
     (case Stop d optionalTimeout of
        Inl pn \<Rightarrow> ([], d, Some pn)
      | Inr (call, d', _) \<Rightarrow> ([call], d', None))"
| "apply_operation d OpRemove = (case Remove d of (call, d', _) \<Rightarrow> ([call], d', None))"
| "apply_operation d OpExitStatus =
     (case ExitStatus d of
        (call, d', Inl pn) \<Rightarrow> ([call], d', Some pn)
      | (call, d', Inr _) \<Rightarrow> ([call], d', None))"
| "apply_operation d (OpIP network) =
     (case IP d network of
        (call, d', Inl pn) \<Rightarrow> ([call], d', Some pn)
      | (call, d', Inr _) \<Rightarrow> ([call], d', None))"
| "apply_operation d OpLogs = (case Logs d of (call, d', _) \<Rightarrow> ([call], d', None))"
| "apply_operation d (OpConnectToNetwork networkID) =
     (case ConnectToNetwork d networkID of (call, d', _) \<Rightarrow> ([call], d', None))"
| "apply_operation d (OpDisconnectFromNetwork networkID) =
     (case DisconnectFromNetwork d networkID of (call, d', _) \<Rightarrow> ([call], d', None))"

fun run_operations ::
  "DockerContainer \<Rightarrow> operation list \<Rightarrow> engine_call list \<times> DockerContainer \<times> panic option" where
  "run_operations d [] = ([], d, None)"
| "run_operations d (op # ops) =
     (case apply_operation d op of
        (calls, d', Some pn) \<Rightarrow> (calls, d', Some pn)
      | (calls, d', None) \<Rightarrow>
          (case run_operations d' ops of (calls', d'', r) \<Rightarrow> (calls @ calls', d'', r)))"

text \<open>The container a request is about, for the requests that name one.\<close>

fun call_target :: "engine_call \<Rightarrow> string option" where
  "call_target ContainerList = None"
| "call_target (ContainerCreate containerConfig hostConfig name) = None"
| "call_target (NetworkConnect networkID containerID) = Some containerID"
| "call_target (NetworkDisconnect networkID containerID force) = Some containerID"
| "call_target (ContainerStart containerID) = Some containerID"
| "call_target (ContainerRemove containerID force) = Some containerID"
| "call_target (ContainerStop containerID timeout) = Some containerID"
| "call_target (ContainerInspect containerID) = Some containerID"
| "call_target (ContainerLogs containerID options) = Some containerID"

subsection \<open>Sample inputs\<close>

text \<open>
  Concrete values on which the theorems below are instantiated: a set of package
  constants, two peer configurations, and a client whose engine has one container
  \<^verbatim>\<open>/peer-1\<close> attached to the networks \<^verbatim>\<open>A\<close> and \<^verbatim>\<open>B\<close>.
\<close>

definition sample_params :: params where
  "sample_params =
     \<lparr>disabledPluginsEntryNode = ''dashboard,profiling,gossip'',
      coordinatorSeed = ''SEED9'',
      coordinatorAddress = ''COOADDR9'',
      coordinatorIntervalSeconds = 10,
      coordinatorSecurityLevel = 1,
      coordinatorMerkleTreeDepth = 12,
      ParaPoWDifficulty = 1,
      APIPort = 14265\<rparr>"

definition sample_peer :: "bool \<Rightarrow> NodeConfig" where
  "sample_peer coo =
     \<lparr>Name = ''replica_0'',
      Coordinator = coo,
      DisabledPlugins = ''dashboard'',
      SnapshotFilePath = ''/assets/snapshot.bin'',
      AutopeeringSeed = ''seedA'',
      EntryNodePublicKey = ''pubkey'',
      EntryNodeHost = ''entry_node''\<rparr>"

definition sample_json :: ContainerJSON where
  "sample_json =
     \<lparr>State = Some \<lparr>ExitCode = 0\<rparr>,
      NetworkSettings = Some
        \<lparr>Networks = [(''A'', Some \<lparr>IPAddress = ''10.0.0.2''\<rparr>),
                     (''B'', Some \<lparr>IPAddress = ''10.0.1.2''\<rparr>)]\<rparr>\<rparr>"

definition sample_containers :: "Container list" where
  "sample_containers =
     [\<lparr>ID = ''1f00'', Names = [''/entry_node'']\<rparr>,
      \<lparr>ID = ''2a11'', Names = [''/peer-1'', ''/alias'']\<rparr>,
      \<lparr>ID = ''3b22'', Names = [''/peer-1'']\<rparr>]"

definition sample_client :: client where
  "sample_client =
     \<lparr>reply_error = (\<lambda>call. None),
      reply_list = (\<lambda>call. Inr sample_containers),
      reply_create = (\<lambda>call. Inr ''c0ffee''),
      reply_inspect = (\<lambda>call. Inr sample_json),
      reply_logs = (\<lambda>call. Inr (ReadCloser 0))\<rparr>"


definition sample_container :: DockerContainer where
  "sample_container = \<lparr>client = sample_client, id' = ''c0ffee''\<rparr>"

text \<open>A client whose engine cannot be reached, and one that lists a container without a name.\<close>

definition failing_client :: client where
  "failing_client =
     \<lparr>reply_error = (\<lambda>call. Some (EngineError ''connection refused'')),
      reply_list = (\<lambda>call. Inl (EngineError ''connection refused'')),
      reply_create = (\<lambda>call. Inl (EngineError ''connection refused'')),
      reply_inspect = (\<lambda>call. Inl (EngineError ''connection refused'')),
      reply_logs = (\<lambda>call. Inl (EngineError ''connection refused''))\<rparr>"

definition nameless_containers :: "Container list" where
  "nameless_containers =
     [\<lparr>ID = ''1f00'', Names = [''/entry_node'']\<rparr>,
      \<lparr>ID = ''dead'', Names = []\<rparr>,
      \<lparr>ID = ''3b22'', Names = [''/peer-1'']\<rparr>]"

definition nameless_client :: client where
  "nameless_client = sample_client\<lparr>reply_list := (\<lambda>call. Inr nameless_containers)\<rparr>"


section \<open>Properties\<close>

subsection \<open>Role configuration builders\<close>

lemma append_targets_map:
  "append_targets cmd targetIPs = cmd @ map (\<lambda>ip. ''--target='' @ ip) targetIPs"
  by (induction targetIPs arbitrary: cmd) simp_all

lemma filter_target_map:
  "filter (starts_with ''--target='') (map (\<lambda>ip. ''--target='' @ ip) targetIPs)
     = map (\<lambda>ip. ''--target='' @ ip) targetIPs"
  by (induction targetIPs) simp_all

text \<open>
  C1, as the code has it.  The claim that a peer without the coordinator role gets no
  coordinator flags does not hold: the five \<^verbatim>\<open>--coordinator.*\<close> arguments are part of
  the literal and do not depend on \<^verbatim>\<open>config.Coordinator\<close>.  What holds for every peer
  configuration, with the role enabled or not: the argument list has exactly one
  coordinator-address flag, carrying the package's coordinator address, and exactly one
  flag each for the proof-of-work difficulty, the interval, the security level and the
  Merkle-tree depth, carrying the package's constants; the role decides only the value of
  \<^verbatim>\<open>--node.enablePlugins\<close>, which is \<^verbatim>\<open>Coordinator\<close> when enabled and empty otherwise.
  Nothing else depends on the role: setting the role to any value leaves the image, the
  exposed ports, the environment and the fourteen other arguments as they are and replaces
  only the third argument, \<^verbatim>\<open>--node.enablePlugins\<close>, and the request sent to the
  engine changes in that argument alone (same name, same host configuration).
\<close>

theorem CreateHornetPeer_coordinator_flags:
  "filter (starts_with ''--coordinator.address='') (Cmd (CreateHornetPeer_containerConfig p config))
     = [''--coordinator.address='' @ coordinatorAddress p]
   \<and> filter (starts_with ''--coordinator.mwm='') (Cmd (CreateHornetPeer_containerConfig p config))
     = [''--coordinator.mwm='' @ fmt_d (ParaPoWDifficulty p)]
   \<and> filter (starts_with ''--coordinator.intervalSeconds='') (Cmd (CreateHornetPeer_containerConfig p config))
     = [''--coordinator.intervalSeconds='' @ fmt_d (coordinatorIntervalSeconds p)]
   \<and> filter (starts_with ''--coordinator.securityLevel='') (Cmd (CreateHornetPeer_containerConfig p config))
     = [''--coordinator.securityLevel='' @ fmt_d (coordinatorSecurityLevel p)]
   \<and> filter (starts_with ''--coordinator.merkleTreeDepth='') (Cmd (CreateHornetPeer_containerConfig p config))
     = [''--coordinator.merkleTreeDepth='' @ fmt_d (coordinatorMerkleTreeDepth p)]
   \<and> filter (starts_with ''--node.enablePlugins='') (Cmd (CreateHornetPeer_containerConfig p config))
     = [''--node.enablePlugins='' @ (if Coordinator config then ''Coordinator'' else [])]
   \<and> fst (CreateHornetPeer p d config)
     = ContainerCreate (CreateHornetPeer_containerConfig p config)
         (Some \<lparr>Binds = [''hornet-testing-assets:/assets:rw'']\<rparr>) (Name config)
   \<and> CreateHornetPeer_containerConfig p (config\<lparr>Coordinator := b\<rparr>)
     = (CreateHornetPeer_containerConfig p config)
         \<lparr>Cmd := (Cmd (CreateHornetPeer_containerConfig p config))
            [2 := ''--node.enablePlugins='' @ (if b then ''Coordinator'' else [])]\<rparr>
   \<and> length (Cmd (CreateHornetPeer_containerConfig p config)) = 15
   \<and> Cmd (CreateHornetPeer_containerConfig p config) ! 2
     = ''--node.enablePlugins='' @ (if Coordinator config then ''Coordinator'' else [])
   \<and> fst (CreateHornetPeer p d (config\<lparr>Coordinator := b\<rparr>))
     = ContainerCreate
         ((CreateHornetPeer_containerConfig p config)
           \<lparr>Cmd := (Cmd (CreateHornetPeer_containerConfig p config))
              [2 := ''--node.enablePlugins='' @ (if b then ''Coordinator'' else [])]\<rparr>)
         (Some \<lparr>Binds = [''hornet-testing-assets:/assets:rw'']\<rparr>) (Name config)"
proof -
  have flags: "Cmd (CreateHornetPeer_containerConfig p config) =
        [''--logger.level=debug'',
         ''--node.disablePlugins='' @ DisabledPlugins config,
         ''--node.enablePlugins='' @ (if Coordinator config then ''Coordinator'' else []),
         ''--coordinator.mwm='' @ fmt_d (ParaPoWDifficulty p),
         ''--coordinator.address='' @ coordinatorAddress p,
         ''--coordinator.intervalSeconds='' @ fmt_d (coordinatorIntervalSeconds p),
         ''--coordinator.securityLevel='' @ fmt_d (coordinatorSecurityLevel p),
         ''--coordinator.merkleTreeDepth='' @ fmt_d (coordinatorMerkleTreeDepth p),
         ''--snapshots.loadType=global'',
         ''--snapshots.global.path=snapshot.csv'',
         ''--snapshots.global.index=0'',
         ''--snapshots.local.path='' @ SnapshotFilePath config,
         ''--httpAPI.bindAddress='' @ fmt_d (APIPort p),
         ''--autopeering.seed=base58:'' @ AutopeeringSeed config,
         ''--autopeering.entryNodes='' @ EntryNodePublicKey config @ ''@''
            @ EntryNodeHost config @ '':14626'']"
    by (simp add: CreateHornetPeer_containerConfig_def enablePlugins_def)
  have call: "fst (CreateHornetPeer p d config)
     = ContainerCreate (CreateHornetPeer_containerConfig p config)
         (Some \<lparr>Binds = [''hornet-testing-assets:/assets:rw'']\<rparr>) (Name config)"
    by (simp add: CreateHornetPeer_def CreateContainer_def Let_def split: sum.split)
  have listed: "filter (starts_with ''--coordinator.address='') (Cmd (CreateHornetPeer_containerConfig p config))
     = [''--coordinator.address='' @ coordinatorAddress p]
   \<and> filter (starts_with ''--coordinator.mwm='') (Cmd (CreateHornetPeer_containerConfig p config))
     = [''--coordinator.mwm='' @ fmt_d (ParaPoWDifficulty p)]
   \<and> filter (starts_with ''--coordinator.intervalSeconds='') (Cmd (CreateHornetPeer_containerConfig p config))
     = [''--coordinator.intervalSeconds='' @ fmt_d (coordinatorIntervalSeconds p)]
   \<and> filter (starts_with ''--coordinator.securityLevel='') (Cmd (CreateHornetPeer_containerConfig p config))
     = [''--coordinator.securityLevel='' @ fmt_d (coordinatorSecurityLevel p)]
   \<and> filter (starts_with ''--coordinator.merkleTreeDepth='') (Cmd (CreateHornetPeer_containerConfig p config))
     = [''--coordinator.merkleTreeDepth='' @ fmt_d (coordinatorMerkleTreeDepth p)]
   \<and> filter (starts_with ''--node.enablePlugins='') (Cmd (CreateHornetPeer_containerConfig p config))
     = [''--node.enablePlugins='' @ (if Coordinator config then ''Coordinator'' else [])]
   \<and> fst (CreateHornetPeer p d config)
     = ContainerCreate (CreateHornetPeer_containerConfig p config)
         (Some \<lparr>Binds = [''hornet-testing-assets:/assets:rw'']\<rparr>) (Name config)"
    unfolding flags using call by simp
  have frame: "CreateHornetPeer_containerConfig p (config\<lparr>Coordinator := b\<rparr>)
     = (CreateHornetPeer_containerConfig p config)
         \<lparr>Cmd := (Cmd (CreateHornetPeer_containerConfig p config))
            [2 := ''--node.enablePlugins='' @ (if b then ''Coordinator'' else [])]\<rparr>
   \<and> length (Cmd (CreateHornetPeer_containerConfig p config)) = 15
   \<and> Cmd (CreateHornetPeer_containerConfig p config) ! 2
     = ''--node.enablePlugins='' @ (if Coordinator config then ''Coordinator'' else [])
   \<and> fst (CreateHornetPeer p d (config\<lparr>Coordinator := b\<rparr>))
     = ContainerCreate
         ((CreateHornetPeer_containerConfig p config)
           \<lparr>Cmd := (Cmd (CreateHornetPeer_containerConfig p config))
              [2 := ''--node.enablePlugins='' @ (if b then ''Coordinator'' else [])]\<rparr>)
         (Some \<lparr>Binds = [''hornet-testing-assets:/assets:rw'']\<rparr>) (Name config)"
    by (simp add: CreateHornetPeer_containerConfig_def enablePlugins_def CreateHornetPeer_def
        CreateContainer_def Let_def numeral_2_eq_2 split: sum.split)
  from listed frame show ?thesis by (simp only: conj_assoc)
qed

theorem CreateHornetPeer_coordinator_flags_witness:
  "filter (starts_with ''--coordinator.address='')
       (Cmd (CreateHornetPeer_containerConfig sample_params (sample_peer True)))
     = [''--coordinator.address=COOADDR9'']
   \<and> filter (starts_with ''--node.enablePlugins='')
       (Cmd (CreateHornetPeer_containerConfig sample_params (sample_peer True)))
     = [''--node.enablePlugins=Coordinator'']
   \<and> filter (starts_with ''--node.enablePlugins='')
       (Cmd (CreateHornetPeer_containerConfig sample_params (sample_peer False)))
     = [''--node.enablePlugins='']
   \<and> CreateHornetPeer_containerConfig sample_params (sample_peer False)
     = (CreateHornetPeer_containerConfig sample_params (sample_peer True))
         \<lparr>Cmd := (Cmd (CreateHornetPeer_containerConfig sample_params (sample_peer True)))
            [2 := ''--node.enablePlugins='']\<rparr>"
proof -
  note on = CreateHornetPeer_coordinator_flags
    [of sample_params "sample_peer True" "NewDockerContainer sample_client" False]
  note off = CreateHornetPeer_coordinator_flags
    [of sample_params "sample_peer False" "NewDockerContainer sample_client" True]
  have address: "filter (starts_with ''--coordinator.address='')
       (Cmd (CreateHornetPeer_containerConfig sample_params (sample_peer True)))
     = [''--coordinator.address=COOADDR9'']"
    using on [THEN conjunct1] by (simp add: sample_params_def)
  have enabled: "filter (starts_with ''--node.enablePlugins='')
       (Cmd (CreateHornetPeer_containerConfig sample_params (sample_peer True)))
     = [''--node.enablePlugins=Coordinator'']"
    using on [THEN conjunct2, THEN conjunct2, THEN conjunct2, THEN conjunct2, THEN conjunct2,
        THEN conjunct1]
    by (simp add: sample_peer_def)
  have disabled: "filter (starts_with ''--node.enablePlugins='')
       (Cmd (CreateHornetPeer_containerConfig sample_params (sample_peer False)))
     = [''--node.enablePlugins='']"
    using off [THEN conjunct2, THEN conjunct2, THEN conjunct2, THEN conjunct2, THEN conjunct2,
        THEN conjunct1]
    by (simp add: sample_peer_def)
  have same: "(sample_peer True)\<lparr>Coordinator := False\<rparr> = sample_peer False"
    by (simp add: sample_peer_def)
  have frame: "CreateHornetPeer_containerConfig sample_params (sample_peer False)
     = (CreateHornetPeer_containerConfig sample_params (sample_peer True))
         \<lparr>Cmd := (Cmd (CreateHornetPeer_containerConfig sample_params (sample_peer True)))
            [2 := ''--node.enablePlugins='']\<rparr>"
    using on [THEN conjunct2, THEN conjunct2, THEN conjunct2, THEN conjunct2, THEN conjunct2,
        THEN conjunct2, THEN conjunct2, THEN conjunct1]
    unfolding same by simp
  from address enabled disabled frame show ?thesis by (intro conjI)
qed

text \<open>
  C1, as the claim states it, fails for a peer with the coordinator role disabled: its
  argument list still holds the coordinator-address flag and the four other coordinator
  flags.
\<close>

theorem CreateHornetPeer_disabled_counterexample:
  "\<not> Coordinator (sample_peer False)
   \<and> Cmd (CreateHornetPeer_containerConfig sample_params (sample_peer False)) =
       [''--logger.level=debug'', ''--node.disablePlugins=dashboard'',
        ''--node.enablePlugins='', ''--coordinator.mwm=1'',
        ''--coordinator.address=COOADDR9'', ''--coordinator.intervalSeconds=10'',
        ''--coordinator.securityLevel=1'', ''--coordinator.merkleTreeDepth=12'',
        ''--snapshots.loadType=global'', ''--snapshots.global.path=snapshot.csv'',
        ''--snapshots.global.index=0'', ''--snapshots.local.path=/assets/snapshot.bin'',
        ''--httpAPI.bindAddress=14265'', ''--autopeering.seed=base58:seedA'',
        ''--autopeering.entryNodes=pubkey@entry_node:14626'']
   \<and> filter (starts_with ''--coordinator.address='')
         (Cmd (CreateHornetPeer_containerConfig sample_params (sample_peer False)))
       = [''--coordinator.address=COOADDR9'']"
proof -
  have d1: "fmt_d 1 = ''1''" by (simp add: fmt_d_def nat_digits.simps digit_char_def)
  have d10: "fmt_d 10 = ''10''" by (simp add: fmt_d_def nat_digits.simps digit_char_def)
  have d12: "fmt_d 12 = ''12''" by (simp add: fmt_d_def nat_digits.simps digit_char_def)
  have dp: "fmt_d 14265 = ''14265''" by (simp add: fmt_d_def nat_digits.simps digit_char_def)
  show ?thesis
    by (simp add: CreateHornetPeer_containerConfig_def enablePlugins_def sample_params_def
        sample_peer_def d1 d10 d12 dp)
qed

text \<open>
  C2.  For every name and seed, the argument list of the entry node holds the entry-node
  list flag with an empty value (and no other entry-node list flag), one seed flag, whose
  value is the input seed in its \<^verbatim>\<open>base58:\<close> notation, and no argument that begins
  with \<^verbatim>\<open>--coordinator.\<close>; no environment variable is set.  The list is the one sent
  to the engine, under the given name and without a host configuration.
\<close>

theorem CreateHornetEntryNode_flags:
  "''--autopeering.entryNodes='' \<in> set (Cmd (CreateHornetEntryNode_containerConfig p seed))
   \<and> filter (starts_with ''--autopeering.entryNodes='') (Cmd (CreateHornetEntryNode_containerConfig p seed))
     = [''--autopeering.entryNodes='']
   \<and> filter (starts_with ''--autopeering.seed='') (Cmd (CreateHornetEntryNode_containerConfig p seed))
     = [''--autopeering.seed=base58:'' @ seed]
   \<and> filter (starts_with ''--coordinator.'') (Cmd (CreateHornetEntryNode_containerConfig p seed)) = []
   \<and> Env (CreateHornetEntryNode_containerConfig p seed) = []
   \<and> fst (CreateHornetEntryNode p d name seed)
     = ContainerCreate (CreateHornetEntryNode_containerConfig p seed) None name"
proof -
  have call: "fst (CreateHornetEntryNode p d name seed)
     = ContainerCreate (CreateHornetEntryNode_containerConfig p seed) None name"
    by (simp add: CreateHornetEntryNode_def CreateContainer_def Let_def split: sum.split)
  show ?thesis
    using call by (simp add: CreateHornetEntryNode_containerConfig_def)
qed

theorem CreateHornetEntryNode_flags_witness:
  "Cmd (CreateHornetEntryNode_containerConfig sample_params ''3YX6e7AL'') =
     [''--logger.level=debug'', ''--node.disablePlugins=dashboard,profiling,gossip'',
      ''--autopeering.entryNodes='', ''--autopeering.seed=base58:3YX6e7AL'']
   \<and> filter (starts_with ''--autopeering.seed='')
        (Cmd (CreateHornetEntryNode_containerConfig sample_params ''3YX6e7AL''))
     = [''--autopeering.seed=base58:3YX6e7AL'']"
  using CreateHornetEntryNode_flags [of sample_params "''3YX6e7AL''"]
  by (simp add: CreateHornetEntryNode_containerConfig_def sample_params_def)


text \<open>
  C3.  For every container name and every list of target addresses, the command line of
  the chaos agent is the three base arguments, then one \<^verbatim>\<open>--target=\<close> flag per address
  in the order of the input, then the fixed fault profile (\<^verbatim>\<open>--tc-image\<close>,
  \<^verbatim>\<open>loss\<close>, \<^verbatim>\<open>--percent=100\<close>) and, last, the container name it is scoped to.
  The arguments before the container name hold exactly those target flags, two for an
  input of two addresses; so does the whole command line when the container name does not
  itself begin with \<^verbatim>\<open>--target=\<close>.  The command line is the one sent to the engine.
\<close>

theorem CreatePumba_target_flags:
  "CreatePumba_cmd containerName targetIPs =
       [''--log-level=debug'', ''netem'', ''--duration=100m'']
       @ map (\<lambda>ip. ''--target='' @ ip) targetIPs
       @ [''--tc-image=gaiadocker/iproute2'', ''loss'', ''--percent=100'', containerName]
   \<and> filter (starts_with ''--target='') (butlast (CreatePumba_cmd containerName targetIPs))
       = map (\<lambda>ip. ''--target='' @ ip) targetIPs
   \<and> last (CreatePumba_cmd containerName targetIPs) = containerName
   \<and> (\<not> starts_with ''--target='' containerName \<longrightarrow>
        filter (starts_with ''--target='') (CreatePumba_cmd containerName targetIPs)
        = map (\<lambda>ip. ''--target='' @ ip) targetIPs)
   \<and> length (filter (starts_with ''--target='') (butlast (CreatePumba_cmd containerName [ip1, ip2]))) = 2
   \<and> fst (CreatePumba d name containerName targetIPs) =
        ContainerCreate
          \<lparr>Image = ''gaiaadm/pumba:0.7.2'', ExposedPorts = {}, Env = [],
           Cmd = CreatePumba_cmd containerName targetIPs\<rparr>
          (Some \<lparr>Binds = [''/var/run/docker.sock:/var/run/docker.sock:ro'']\<rparr>) name"
proof -
  let ?t = "map (\<lambda>ip. ''--target='' @ ip) targetIPs"
  have eq: "CreatePumba_cmd containerName targetIPs =
       [''--log-level=debug'', ''netem'', ''--duration=100m''] @ ?t
       @ [''--tc-image=gaiadocker/iproute2'', ''loss'', ''--percent=100'', containerName]"
    by (simp add: CreatePumba_cmd_def append_targets_map)
  have bl: "butlast (CreatePumba_cmd containerName targetIPs) =
       [''--log-level=debug'', ''netem'', ''--duration=100m''] @ ?t
       @ [''--tc-image=gaiadocker/iproute2'', ''loss'', ''--percent=100'']"
    by (simp add: eq butlast_append)
  have f1: "filter (starts_with ''--target='') (butlast (CreatePumba_cmd containerName targetIPs)) = ?t"
    by (simp add: bl filter_target_map)
  have f2: "\<not> starts_with ''--target='' containerName \<longrightarrow>
        filter (starts_with ''--target='') (CreatePumba_cmd containerName targetIPs) = ?t"
    by (simp add: eq filter_target_map)
  have two: "length (filter (starts_with ''--target='') (butlast (CreatePumba_cmd containerName [ip1, ip2]))) = 2"
    by (simp add: CreatePumba_cmd_def)
  have l: "last (CreatePumba_cmd containerName targetIPs) = containerName"
    by (simp add: eq)
  have c: "fst (CreatePumba d name containerName targetIPs) =
        ContainerCreate
          \<lparr>Image = ''gaiaadm/pumba:0.7.2'', ExposedPorts = {}, Env = [],
           Cmd = CreatePumba_cmd containerName targetIPs\<rparr>
          (Some \<lparr>Binds = [''/var/run/docker.sock:/var/run/docker.sock:ro'']\<rparr>) name"
    by (simp add: CreatePumba_def CreateContainer_def Let_def split: sum.split)
  from eq f1 l f2 two c show ?thesis by blast
qed

theorem CreatePumba_target_flags_witness:
  "\<not> starts_with ''--target='' ''replica_1''
   \<and> CreatePumba_cmd ''replica_1'' [''10.0.0.2'', ''10.0.0.3''] =
       [''--log-level=debug'', ''netem'', ''--duration=100m'',
        ''--target=10.0.0.2'', ''--target=10.0.0.3'',
        ''--tc-image=gaiadocker/iproute2'', ''loss'', ''--percent=100'', ''replica_1'']
   \<and> filter (starts_with ''--target='') (CreatePumba_cmd ''replica_1'' [''10.0.0.2'', ''10.0.0.3''])
       = [''--target=10.0.0.2'', ''--target=10.0.0.3'']"
  using CreatePumba_target_flags [of "''replica_1''" "[''10.0.0.2'', ''10.0.0.3'']"]
  by simp



subsection \<open>Looking up the address of a container\<close>

lemma IP_range_found:
  "distinct (map fst entries) \<Longrightarrow> (network, v) \<in> set entries \<Longrightarrow>
   IP_range network entries =
     (case v of None \<Rightarrow> Inl NilDereference | Some ep \<Rightarrow> Inr (Inr (IPAddress ep)))"
proof (induction entries)
  case Nil
  then show ?case by simp
next
  case (Cons e entries)
  obtain name w where e: "e = (name, w)" by (cases e)
  show ?case
  proof (cases "name = network")
    case True
    with Cons.prems e have "w = v" by (auto simp: image_iff)
    with True e show ?thesis by simp
  next
    case False
    with Cons e show ?thesis by auto
  qed
qed

lemma IP_range_absent:
  "network \<notin> fst ` set entries \<Longrightarrow>
   IP_range network entries =
     Inr (Inl (Errorf (''IP address in '' @ network @ '' could not be determined'')))"
  by (induction entries) auto

text \<open>
  C4.  When the inspection fails, \<^verbatim>\<open>IP\<close> returns the client's error as it is.  When
  it succeeds and reports the networks the container is attached to (a Go map, so the
  names are distinct, visited in any order), \<^verbatim>\<open>IP\<close> returns the address assigned
  under the requested network if the container is attached to it, and otherwise fails with
  the error \<^verbatim>\<open>IP address in <network> could not be determined\<close>, built here and
  carrying the requested name.  Every case sends one inspection of the wrapper's container
  and leaves the wrapper as it was.
\<close>

theorem IP_lookup:
  "(reply_inspect (client d) (ContainerInspect (id' d)) = Inl err \<longrightarrow>
      IP d network = (ContainerInspect (id' d), d, Inr (Inl err)))
   \<and> (reply_inspect (client d) (ContainerInspect (id' d)) = Inr resp
        \<and> NetworkSettings resp = Some ns \<and> distinct (map fst (Networks ns)) \<longrightarrow>
        ((network, Some ep) \<in> set (Networks ns) \<longrightarrow>
           IP d network = (ContainerInspect (id' d), d, Inr (Inr (IPAddress ep))))
        \<and> (network \<notin> fst ` set (Networks ns) \<longrightarrow>
           IP d network =
             (ContainerInspect (id' d), d,
              Inr (Inl (Errorf (''IP address in '' @ network @ '' could not be determined''))))))"
proof (intro conjI impI)
  assume "reply_inspect (client d) (ContainerInspect (id' d)) = Inl err"
  then show "IP d network = (ContainerInspect (id' d), d, Inr (Inl err))"
    by (simp add: IP_def)
next
  assume a: "reply_inspect (client d) (ContainerInspect (id' d)) = Inr resp
        \<and> NetworkSettings resp = Some ns \<and> distinct (map fst (Networks ns))"
    and m: "(network, Some ep) \<in> set (Networks ns)"
  from a m have "IP_range network (Networks ns) = Inr (Inr (IPAddress ep))"
    using IP_range_found [of "Networks ns" network "Some ep"] by simp
  with a show "IP d network = (ContainerInspect (id' d), d, Inr (Inr (IPAddress ep)))"
    by (simp add: IP_def)
next
  assume a: "reply_inspect (client d) (ContainerInspect (id' d)) = Inr resp
        \<and> NetworkSettings resp = Some ns \<and> distinct (map fst (Networks ns))"
    and m: "network \<notin> fst ` set (Networks ns)"
  from m have "IP_range network (Networks ns) =
      Inr (Inl (Errorf (''IP address in '' @ network @ '' could not be determined'')))"
    by (rule IP_range_absent)
  with a show "IP d network =
             (ContainerInspect (id' d), d,
              Inr (Inl (Errorf (''IP address in '' @ network @ '' could not be determined''))))"
    by (simp add: IP_def)
qed

theorem IP_lookup_witness:
  "IP sample_container ''A'' = (ContainerInspect ''c0ffee'', sample_container, Inr (Inr ''10.0.0.2''))
   \<and> IP sample_container ''C'' =
       (ContainerInspect ''c0ffee'', sample_container,
        Inr (Inl (Errorf ''IP address in C could not be determined'')))
   \<and> IP \<lparr>client = failing_client, id' = ''c0ffee''\<rparr> ''A'' =
       (ContainerInspect ''c0ffee'', \<lparr>client = failing_client, id' = ''c0ffee''\<rparr>,
        Inr (Inl (EngineError ''connection refused'')))"
  using IP_lookup [of sample_container "EngineError []" "''A''" sample_json
      "\<lparr>Networks = [(''A'', Some \<lparr>IPAddress = ''10.0.0.2''\<rparr>),
                     (''B'', Some \<lparr>IPAddress = ''10.0.1.2''\<rparr>)]\<rparr>" "\<lparr>IPAddress = ''10.0.0.2''\<rparr>"]
    IP_lookup [of sample_container "EngineError []" "''C''" sample_json
      "\<lparr>Networks = [(''A'', Some \<lparr>IPAddress = ''10.0.0.2''\<rparr>),
                     (''B'', Some \<lparr>IPAddress = ''10.0.1.2''\<rparr>)]\<rparr>" "\<lparr>IPAddress = ''10.0.0.2''\<rparr>"]
    IP_lookup [of "\<lparr>client = failing_client, id' = ''c0ffee''\<rparr>" "EngineError ''connection refused''"
      "''A''" sample_json "\<lparr>Networks = []\<rparr>" "\<lparr>IPAddress = []\<rparr>"]
  by (simp add: sample_container_def sample_client_def sample_json_def failing_client_def)



subsection \<open>Resolving a container by name\<close>

lemma find_by_name_skip:
  "(\<forall>p\<in>set pre. \<exists>n ns. Names p = n # ns \<and> n \<noteq> name) \<Longrightarrow>
   find_by_name c name (pre @ rest) = find_by_name c name rest"
  by (induction pre) auto

lemma find_by_name_returns:
  "(\<forall>cont\<in>set containers. Names cont \<noteq> []) \<Longrightarrow> \<exists>r. find_by_name c name containers = Inr r"
  by (induction containers) (auto split: list.splits)

text \<open>
  C5, as the code has it.  The claim needs one condition it does not state: the
  containers the loop visits have a primary name.  When listing fails, the client's
  error is returned as it is.  When the list holds
  a container whose primary name (\<^verbatim>\<open>Names[0]\<close>) is the requested name, and every
  container before it has a primary name that differs, the result is a wrapper bound to
  the same client whose identifier is that container's \<^verbatim>\<open>ID\<close>: the first match wins.
  When every listed container has a primary name and none equals the requested name, in
  particular when the list is empty, the result is the error
  \<^verbatim>\<open>could not find container with name '<name>'\<close>, which names the searched value.
\<close>

theorem NewDockerContainerFromExisting_first_match:
  "(reply_list c ContainerList = Inl err \<longrightarrow>
      NewDockerContainerFromExisting c name = Inr (Inl err))
   \<and> (reply_list c ContainerList = Inr (pre @ cont # post)
        \<and> (\<forall>p\<in>set pre. \<exists>n ns. Names p = n # ns \<and> n \<noteq> name)
        \<and> (\<exists>ns. Names cont = name # ns) \<longrightarrow>
      NewDockerContainerFromExisting c name = Inr (Inr \<lparr>client = c, id' = ID cont\<rparr>))
   \<and> (reply_list c ContainerList = Inr containers
        \<and> (\<forall>p\<in>set containers. \<exists>n ns. Names p = n # ns \<and> n \<noteq> name) \<longrightarrow>
      NewDockerContainerFromExisting c name =
        Inr (Inl (Errorf (''could not find container with name '' @ [CHR 0x27] @ name @ [CHR 0x27]))))
   \<and> (reply_list c ContainerList = Inr [] \<longrightarrow>
      NewDockerContainerFromExisting c name =
        Inr (Inl (Errorf (''could not find container with name '' @ [CHR 0x27] @ name @ [CHR 0x27]))))"
proof (intro conjI impI)
  assume "reply_list c ContainerList = Inl err"
  then show "NewDockerContainerFromExisting c name = Inr (Inl err)"
    by (simp add: NewDockerContainerFromExisting_def)
next
  assume a: "reply_list c ContainerList = Inr (pre @ cont # post)
        \<and> (\<forall>p\<in>set pre. \<exists>n ns. Names p = n # ns \<and> n \<noteq> name)
        \<and> (\<exists>ns. Names cont = name # ns)"
  then have "find_by_name c name (pre @ cont # post) = find_by_name c name (cont # post)"
    by (intro find_by_name_skip) simp
  moreover from a have "find_by_name c name (cont # post) = Inr (Inr \<lparr>client = c, id' = ID cont\<rparr>)"
    by auto
  ultimately show "NewDockerContainerFromExisting c name = Inr (Inr \<lparr>client = c, id' = ID cont\<rparr>)"
    using a by (simp add: NewDockerContainerFromExisting_def)
next
  assume a: "reply_list c ContainerList = Inr containers
        \<and> (\<forall>p\<in>set containers. \<exists>n ns. Names p = n # ns \<and> n \<noteq> name)"
  then have "find_by_name c name (containers @ []) = find_by_name c name []"
    by (intro find_by_name_skip) simp
  with a show "NewDockerContainerFromExisting c name =
        Inr (Inl (Errorf (''could not find container with name '' @ [CHR 0x27] @ name @ [CHR 0x27])))"
    by (simp add: NewDockerContainerFromExisting_def)
next
  assume "reply_list c ContainerList = Inr []"
  then show "NewDockerContainerFromExisting c name =
        Inr (Inl (Errorf (''could not find container with name '' @ [CHR 0x27] @ name @ [CHR 0x27])))"
    by (simp add: NewDockerContainerFromExisting_def)
qed

theorem NewDockerContainerFromExisting_first_match_witness:
  "NewDockerContainerFromExisting sample_client ''/peer-1''
     = Inr (Inr \<lparr>client = sample_client, id' = ''2a11''\<rparr>)
   \<and> NewDockerContainerFromExisting sample_client ''peer-9''
     = Inr (Inl (Errorf (''could not find container with name '' @ [CHR 0x27] @ ''peer-9'' @ [CHR 0x27])))
   \<and> NewDockerContainerFromExisting (sample_client\<lparr>reply_list := (\<lambda>call. Inr [])\<rparr>) ''/peer-1''
     = Inr (Inl (Errorf (''could not find container with name '' @ [CHR 0x27] @ ''/peer-1'' @ [CHR 0x27])))
   \<and> NewDockerContainerFromExisting failing_client ''/peer-1''
     = Inr (Inl (EngineError ''connection refused''))"
  using
    NewDockerContainerFromExisting_first_match [of sample_client "EngineError []" "''/peer-1''"
      "[\<lparr>ID = ''1f00'', Names = [''/entry_node'']\<rparr>]"
      "\<lparr>ID = ''2a11'', Names = [''/peer-1'', ''/alias'']\<rparr>"
      "[\<lparr>ID = ''3b22'', Names = [''/peer-1'']\<rparr>]" "[]"]
    NewDockerContainerFromExisting_first_match [of sample_client "EngineError []" "''peer-9''"
      "[]" "\<lparr>ID = [], Names = []\<rparr>" "[]" sample_containers]
    NewDockerContainerFromExisting_first_match [of "sample_client\<lparr>reply_list := (\<lambda>call. Inr [])\<rparr>"
      "EngineError []" "''/peer-1''" "[]" "\<lparr>ID = [], Names = []\<rparr>" "[]" "[]"]
    NewDockerContainerFromExisting_first_match [of failing_client "EngineError ''connection refused''"
      "''/peer-1''" "[]" "\<lparr>ID = [], Names = []\<rparr>" "[]" "[]"]
  by (simp add: sample_client_def sample_containers_def failing_client_def)

text \<open>
  C5, as the claim states it, fails on a list that holds a container without a name: the
  third container's primary name is \<^verbatim>\<open>/peer-1\<close>, yet looking it up panics at
  the second container instead of returning a wrapper, and looking up a name that no
  container has panics instead of failing with the not-found error.
\<close>

theorem NewDockerContainerFromExisting_nameless_counterexample:
  "reply_list nameless_client ContainerList =
     Inr [\<lparr>ID = ''1f00'', Names = [''/entry_node'']\<rparr>,
          \<lparr>ID = ''dead'', Names = []\<rparr>,
          \<lparr>ID = ''3b22'', Names = [''/peer-1'']\<rparr>]
   \<and> NewDockerContainerFromExisting nameless_client ''/peer-1'' = Inl IndexOutOfRange
   \<and> NewDockerContainerFromExisting nameless_client ''/nope'' = Inl IndexOutOfRange"
  by (simp add: NewDockerContainerFromExisting_def nameless_client_def nameless_containers_def)

text \<open>
  C10.  The loop reads \<^verbatim>\<open>cont.Names[0]\<close> without a length check.  When every listed
  container has at least one name, every read is in bounds and the function returns (a
  wrapper or an error).  When the loop reaches a container with an empty \<^verbatim>\<open>Names\<close>
  slice, that is, when the containers before it all have a primary name other than the
  requested one, the read is out of bounds and the function panics.
\<close>

theorem NewDockerContainerFromExisting_index_bounds:
  "(reply_list c ContainerList = Inr containers
      \<and> (\<forall>cont\<in>set containers. Names cont \<noteq> []) \<longrightarrow>
      (\<exists>r. NewDockerContainerFromExisting c name = Inr r))
   \<and> (reply_list c ContainerList = Inr (pre @ cont # post)
        \<and> (\<forall>p\<in>set pre. \<exists>n ns. Names p = n # ns \<and> n \<noteq> name)
        \<and> Names cont = [] \<longrightarrow>
      NewDockerContainerFromExisting c name = Inl IndexOutOfRange)"
proof (intro conjI impI)
  assume a: "reply_list c ContainerList = Inr containers
      \<and> (\<forall>cont\<in>set containers. Names cont \<noteq> [])"
  then have "\<exists>r. find_by_name c name containers = Inr r"
    by (intro find_by_name_returns) simp
  with a show "\<exists>r. NewDockerContainerFromExisting c name = Inr r"
    by (simp add: NewDockerContainerFromExisting_def)
next
  assume a: "reply_list c ContainerList = Inr (pre @ cont # post)
        \<and> (\<forall>p\<in>set pre. \<exists>n ns. Names p = n # ns \<and> n \<noteq> name)
        \<and> Names cont = []"
  then have "find_by_name c name (pre @ cont # post) = find_by_name c name (cont # post)"
    by (intro find_by_name_skip) simp
  with a show "NewDockerContainerFromExisting c name = Inl IndexOutOfRange"
    by (simp add: NewDockerContainerFromExisting_def)
qed

theorem NewDockerContainerFromExisting_index_bounds_witness:
  "NewDockerContainerFromExisting nameless_client ''/peer-1'' = Inl IndexOutOfRange
   \<and> (\<exists>r. NewDockerContainerFromExisting sample_client ''/peer-1'' = Inr r)"
  using
    NewDockerContainerFromExisting_index_bounds [of nameless_client nameless_containers "''/peer-1''"
      "[\<lparr>ID = ''1f00'', Names = [''/entry_node'']\<rparr>]"
      "\<lparr>ID = ''dead'', Names = []\<rparr>"
      "[\<lparr>ID = ''3b22'', Names = [''/peer-1'']\<rparr>]"]
    NewDockerContainerFromExisting_index_bounds [of sample_client sample_containers "''/peer-1''"
      "[]" "\<lparr>ID = [], Names = [''x'']\<rparr>" "[]"]
  by (simp add: nameless_client_def nameless_containers_def sample_client_def sample_containers_def)



subsection \<open>Stopping a container and reading its logs\<close>

text \<open>
  C6.  \<^verbatim>\<open>Stop\<close> without a timeout sends the stop request with \<^verbatim>\<open>3 * time.Minute\<close>,
  which is 180 seconds in nanoseconds.  \<^verbatim>\<open>Stop\<close> with explicit timeouts sends the
  first of them, whatever its value; with the single timeout \<^verbatim>\<open>5 * time.Second\<close> it
  sends five seconds.  Both requests name the wrapper's container and leave the wrapper
  as it was.
\<close>

theorem Stop_timeout:
  "Stop d None =
     Inr (ContainerStop (id' d) (3 * Minute), d,
          reply_error (client d) (ContainerStop (id' d) (3 * Minute)))
   \<and> sint (3 * Minute) = 3 * 60 * 1000000000
   \<and> Stop d (Some (t # ts)) =
     Inr (ContainerStop (id' d) t, d, reply_error (client d) (ContainerStop (id' d) t))
   \<and> Stop d (Some [5 * Second]) =
     Inr (ContainerStop (id' d) (5 * Second), d,
          reply_error (client d) (ContainerStop (id' d) (5 * Second)))
   \<and> sint (5 * Second) = 5 * 1000000000"
  by (simp add: Stop_def Let_def Minute_def Second_def Millisecond_def Microsecond_def Nanosecond_def)

theorem Stop_timeout_witness:
  "Stop sample_container None = Inr (ContainerStop ''c0ffee'' 180000000000, sample_container, None)
   \<and> Stop sample_container (Some [5000000000]) =
       Inr (ContainerStop ''c0ffee'' 5000000000, sample_container, None)"
  using Stop_timeout [of sample_container 5000000000 "[]"]
  by (simp add: sample_container_def sample_client_def Minute_def Second_def Millisecond_def
      Microsecond_def Nanosecond_def)

text \<open>
  C9.  \<^verbatim>\<open>Stop\<close> reads \<^verbatim>\<open>optionalTimeout[0]\<close> whenever the slice is not
  \<^verbatim>\<open>nil\<close>.  With a slice that is not \<^verbatim>\<open>nil\<close> the call returns exactly when the
  slice is not empty, and panics with an index out of range exactly when it is empty; the
  \<^verbatim>\<open>nil\<close> slice of a call without arguments always returns.
\<close>

theorem Stop_index_bounds:
  "Stop d (Some []) = Inl IndexOutOfRange
   \<and> ((\<exists>r. Stop d (Some ts) = Inr r) = (ts \<noteq> []))
   \<and> ((Stop d (Some ts) = Inl IndexOutOfRange) = (ts = []))
   \<and> (\<exists>r. Stop d None = Inr r)"
  by (cases ts) (simp_all add: Stop_def Let_def)

theorem Stop_index_bounds_witness:
  "Stop sample_container (Some []) = Inl IndexOutOfRange
   \<and> (\<exists>r. Stop sample_container (Some [1000000000]) = Inr r)"
  using Stop_index_bounds [of sample_container "[1000000000]"]
  by simp

text \<open>
  C7, as the code has it.  \<^verbatim>\<open>Logs\<close> asks the engine for the standard output and the
  standard error of the wrapper's container, from the start (\<^verbatim>\<open>Since\<close> is empty) and
  without a bound on the number of lines (\<^verbatim>\<open>Tail\<close> is empty), without timestamps or
  details, and with \<^verbatim>\<open>Follow\<close> switched off: the stream holds what the container has
  written so far and is not a live, following one.
\<close>

theorem Logs_request:
  "Logs d =
     (ContainerLogs (id' d) Logs_options, d,
      reply_logs (client d) (ContainerLogs (id' d) Logs_options))
   \<and> ShowStdout Logs_options \<and> ShowStderr Logs_options
   \<and> Since Logs_options = [] \<and> Tail Logs_options = []
   \<and> \<not> Follow Logs_options
   \<and> \<not> Timestamps Logs_options \<and> \<not> Details Logs_options"
  by (simp add: Logs_def Logs_options_def Let_def)

theorem Logs_request_witness:
  "Logs sample_container =
     (ContainerLogs ''c0ffee''
        \<lparr>ShowStdout = True, ShowStderr = True, Since = [], Timestamps = False,
         Follow = False, Tail = [], Details = False\<rparr>,
      sample_container, Inr (ReadCloser 0))"
  using Logs_request [of sample_container]
  by (simp add: sample_container_def sample_client_def Logs_options_def)

text \<open>
  C7, as the claim states it, fails: the options sent do not select follow mode.
\<close>

theorem Logs_follow_counterexample:
  "fst (Logs sample_container) = ContainerLogs ''c0ffee'' Logs_options
   \<and> \<not> Follow Logs_options"
  by (simp add: Logs_def Logs_options_def sample_container_def Let_def)

subsection \<open>The identifier of a wrapper\<close>

lemma apply_operation_frame:
  "apply_operation d op = (calls, d', r) \<Longrightarrow>
   d' = d \<and> (\<forall>c\<in>set calls. call_target c = Some (id' d))
   \<and> (r = None \<longrightarrow> map call_target calls = [Some (id' d)])"
  by (cases op)
    (auto simp: Start_def Stop_def Remove_def ExitStatus_def IP_def Logs_def
      ConnectToNetwork_def DisconnectFromNetwork_def Let_def
      split: sum.splits option.splits list.splits prod.splits)

lemma run_operations_frame:
  "run_operations d ops = (calls, d', r) \<Longrightarrow>
   d' = d \<and> (\<forall>c\<in>set calls. call_target c = Some (id' d))
   \<and> (r = None \<longrightarrow> map call_target calls = replicate (length ops) (Some (id' d)))"
proof (induction ops arbitrary: calls d' r)
  case Nil
  then show ?case by simp
next
  case (Cons op ops)
  obtain cs1 d1 r1 where step: "apply_operation d op = (cs1, d1, r1)"
    by (cases "apply_operation d op") auto
  from apply_operation_frame [OF step]
  have d1: "d1 = d" and t1: "\<forall>c\<in>set cs1. call_target c = Some (id' d)"
    and n1: "r1 = None \<longrightarrow> map call_target cs1 = [Some (id' d)]"
    by simp_all
  show ?case
  proof (cases r1)
    case (Some pn)
    with Cons.prems step d1 t1 show ?thesis by auto
  next
    case None
    obtain cs2 d2 r2 where rest: "run_operations d ops = (cs2, d2, r2)"
      by (cases "run_operations d ops") auto
    from Cons.IH [OF rest]
    have d2: "d2 = d" and t2: "\<forall>c\<in>set cs2. call_target c = Some (id' d)"
      and n2: "r2 = None \<longrightarrow> map call_target cs2 = replicate (length ops) (Some (id' d))"
      by simp_all
    from Cons.prems step None d1 rest
    have res: "calls = cs1 @ cs2" "d' = d2" "r = r2" by simp_all
    from res d2 t1 t2 n1 n2 None show ?thesis by auto
  qed
qed

text \<open>
  C8.  A successful \<^verbatim>\<open>CreateContainer\<close> stores the identifier the engine returned
  and keeps the client.  From then on, any run of \<^verbatim>\<open>Start\<close>, \<^verbatim>\<open>Stop\<close>,
  \<^verbatim>\<open>Remove\<close>, \<^verbatim>\<open>ExitStatus\<close>, \<^verbatim>\<open>IP\<close>, \<^verbatim>\<open>Logs\<close>,
  \<^verbatim>\<open>ConnectToNetwork\<close> and \<^verbatim>\<open>DisconnectFromNetwork\<close> leaves the wrapper as the
  creation left it, and every request of the run names that identifier; a run that does
  not panic sends exactly one such request per operation.
\<close>

theorem identifier_fixed_after_creation:
  "CreateContainer d name containerConfig hostConfigs = (call0, d1, None)
     \<and> run_operations d1 ops = (calls, d2, r) \<longrightarrow>
   reply_create (client d) call0 = Inr (id' d1)
   \<and> client d1 = client d
   \<and> d2 = d1
   \<and> (\<forall>c\<in>set calls. call_target c = Some (id' d1))
   \<and> (r = None \<longrightarrow> map call_target calls = replicate (length ops) (Some (id' d1)))"
proof (intro impI)
  assume a: "CreateContainer d name containerConfig hostConfigs = (call0, d1, None)
     \<and> run_operations d1 ops = (calls, d2, r)"
  then have created: "reply_create (client d) call0 = Inr (id' d1) \<and> client d1 = client d"
    by (auto simp: CreateContainer_def Let_def split: sum.splits)
  from a have "run_operations d1 ops = (calls, d2, r)" by simp
  from run_operations_frame [OF this] created show
    "reply_create (client d) call0 = Inr (id' d1)
     \<and> client d1 = client d
     \<and> d2 = d1
     \<and> (\<forall>c\<in>set calls. call_target c = Some (id' d1))
     \<and> (r = None \<longrightarrow> map call_target calls = replicate (length ops) (Some (id' d1)))"
    by simp
qed

theorem identifier_fixed_after_creation_witness:
  "CreateContainer (NewDockerContainer sample_client) ''replica_0''
       (CreateHornetEntryNode_containerConfig sample_params ''seedA'') []
     = (ContainerCreate (CreateHornetEntryNode_containerConfig sample_params ''seedA'') None
          ''replica_0'',
        sample_container, None)
   \<and> run_operations sample_container
       [OpStart, OpConnectToNetwork ''net1'', OpIP ''A'', OpLogs, OpExitStatus,
        OpDisconnectFromNetwork ''net1'', OpStop None, OpStop (Some [5 * Second]), OpRemove]
     = ([ContainerStart ''c0ffee'', NetworkConnect ''net1'' ''c0ffee'', ContainerInspect ''c0ffee'',
         ContainerLogs ''c0ffee'' Logs_options, ContainerInspect ''c0ffee'',
         NetworkDisconnect ''net1'' ''c0ffee'' True, ContainerStop ''c0ffee'' (3 * Minute),
         ContainerStop ''c0ffee'' (5 * Second), ContainerRemove ''c0ffee'' True],
        sample_container, None)
   \<and> map call_target
       [ContainerStart ''c0ffee'', NetworkConnect ''net1'' ''c0ffee'', ContainerInspect ''c0ffee'',
         ContainerLogs ''c0ffee'' Logs_options, ContainerInspect ''c0ffee'',
         NetworkDisconnect ''net1'' ''c0ffee'' True, ContainerStop ''c0ffee'' (3 * Minute),
         ContainerStop ''c0ffee'' (5 * Second), ContainerRemove ''c0ffee'' True]
     = replicate 9 (Some ''c0ffee'')"
proof -
  have create: "CreateContainer (NewDockerContainer sample_client) ''replica_0''
       (CreateHornetEntryNode_containerConfig sample_params ''seedA'') []
     = (ContainerCreate (CreateHornetEntryNode_containerConfig sample_params ''seedA'') None
          ''replica_0'',
        sample_container, None)"
    by (simp add: CreateContainer_def NewDockerContainer_def sample_container_def
        sample_client_def Let_def)
  have run: "run_operations sample_container
       [OpStart, OpConnectToNetwork ''net1'', OpIP ''A'', OpLogs, OpExitStatus,
        OpDisconnectFromNetwork ''net1'', OpStop None, OpStop (Some [5 * Second]), OpRemove]
     = ([ContainerStart ''c0ffee'', NetworkConnect ''net1'' ''c0ffee'', ContainerInspect ''c0ffee'',
         ContainerLogs ''c0ffee'' Logs_options, ContainerInspect ''c0ffee'',
         NetworkDisconnect ''net1'' ''c0ffee'' True, ContainerStop ''c0ffee'' (3 * Minute),
         ContainerStop ''c0ffee'' (5 * Second), ContainerRemove ''c0ffee'' True],
        sample_container, None)"
    by (simp add: Start_def Stop_def Remove_def ExitStatus_def IP_def Logs_def
        ConnectToNetwork_def DisconnectFromNetwork_def Let_def
        sample_container_def sample_client_def sample_json_def)
  from create run have both:
    "CreateContainer (NewDockerContainer sample_client) ''replica_0''
       (CreateHornetEntryNode_containerConfig sample_params ''seedA'') []
     = (ContainerCreate (CreateHornetEntryNode_containerConfig sample_params ''seedA'') None
          ''replica_0'',
        sample_container, None)
     \<and> run_operations sample_container
       [OpStart, OpConnectToNetwork ''net1'', OpIP ''A'', OpLogs, OpExitStatus,
        OpDisconnectFromNetwork ''net1'', OpStop None, OpStop (Some [5 * Second]), OpRemove]
     = ([ContainerStart ''c0ffee'', NetworkConnect ''net1'' ''c0ffee'', ContainerInspect ''c0ffee'',
         ContainerLogs ''c0ffee'' Logs_options, ContainerInspect ''c0ffee'',
         NetworkDisconnect ''net1'' ''c0ffee'' True, ContainerStop ''c0ffee'' (3 * Minute),
         ContainerStop ''c0ffee'' (5 * Second), ContainerRemove ''c0ffee'' True],
        sample_container, None)"
    by (rule conjI)
  from identifier_fixed_after_creation [THEN mp, OF both]
  have "map call_target
       [ContainerStart ''c0ffee'', NetworkConnect ''net1'' ''c0ffee'', ContainerInspect ''c0ffee'',
         ContainerLogs ''c0ffee'' Logs_options, ContainerInspect ''c0ffee'',
         NetworkDisconnect ''net1'' ''c0ffee'' True, ContainerStop ''c0ffee'' (3 * Minute),
         ContainerStop ''c0ffee'' (5 * Second), ContainerRemove ''c0ffee'' True]
     = replicate (length
       [OpStart, OpConnectToNetwork ''net1'', OpIP ''A'', OpLogs, OpExitStatus,
        OpDisconnectFromNetwork ''net1'', OpStop None, OpStop (Some [5 * Second]), OpRemove]) (Some (id' sample_container))"
    by blast
  then have targets: "map call_target
       [ContainerStart ''c0ffee'', NetworkConnect ''net1'' ''c0ffee'', ContainerInspect ''c0ffee'',
         ContainerLogs ''c0ffee'' Logs_options, ContainerInspect ''c0ffee'',
         NetworkDisconnect ''net1'' ''c0ffee'' True, ContainerStop ''c0ffee'' (3 * Minute),
         ContainerStop ''c0ffee'' (5 * Second), ContainerRemove ''c0ffee'' True]
     = replicate 9 (Some ''c0ffee'')"
    by (simp add: sample_container_def numeral_eq_Suc)
  from create run targets show ?thesis by (intro conjI)
qed


end
